theory Spec2Isabelle
  imports Complex_Main "HOL-Library.AList"
begin

section \<open>Health monitor (backend.py, class HardwareMonitor)\<close>

text \<open>
  Python floats are modelled as \<^typ>\<open>real\<close> and Python ints as \<^typ>\<open>int\<close>.
  Every reading of the wall clock (\<^verbatim>\<open>time.time()\<close>) is an explicit argument of the
  operation that reads it.
\<close>

datatype HardwareState = DISCONNECTED | CONNECTING | CONNECTED | ERROR | RECONNECTING

text \<open>
  \<^verbatim>\<open>HardwareStatus\<close>. The fields \<^verbatim>\<open>pin_states\<close> and \<^verbatim>\<open>analog_values\<close> are written
  by \<^verbatim>\<open>get_status\<close> only, which is not modelled, and are left out.
\<close>

record HardwareStatus =
  state :: HardwareState
  connected_at :: "real option"
  last_command :: "real option"
  total_commands :: int
  successful_commands :: int
  error_count :: int
  average_response_time :: real

text \<open>One entry of \<^verbatim>\<open>error_log\<close>: the dictionary built by \<^verbatim>\<open>record_error\<close>.\<close>

record error_entry =
  err_timestamp :: real
  err_error :: string
  err_context :: string
  err_state :: HardwareState

record HardwareMonitor =
  status :: HardwareStatus
  response_times :: "real list"
  error_log :: "error_entry list"

definition init_status :: HardwareStatus where
  "init_status =
     \<lparr>state = DISCONNECTED, connected_at = None, last_command = None,
      total_commands = 0, successful_commands = 0, error_count = 0,
      average_response_time = 0\<rparr>"

definition init_monitor :: HardwareMonitor where
  "init_monitor = \<lparr>status = init_status, response_times = [], error_log = []\<rparr>"

text \<open>\<^verbatim>\<open>xs.pop(0)\<close> on a list that the caller has just appended to (never empty).\<close>

definition pop0 :: "'a list \<Rightarrow> 'a list" where
  "pop0 xs = tl xs"

definition update_response_time :: "HardwareMonitor \<Rightarrow> real \<Rightarrow> HardwareMonitor" where
  "update_response_time m response_time =
     (let rts = response_times m @ [response_time];
          rts' = (if length rts > 100 then pop0 rts else rts)
      in m\<lparr>response_times := rts',
            status := (status m)\<lparr>average_response_time := sum_list rts' / real (length rts')\<rparr>\<rparr>)"

definition record_command :: "HardwareMonitor \<Rightarrow> bool \<Rightarrow> HardwareMonitor" where
  "record_command m success =
     (let st = (status m)\<lparr>total_commands := total_commands (status m) + 1\<rparr>
      in m\<lparr>status :=
             (if success
              then st\<lparr>successful_commands := successful_commands st + 1\<rparr>
              else st\<lparr>error_count := error_count st + 1\<rparr>)\<rparr>)"

definition record_error :: "HardwareMonitor \<Rightarrow> real \<Rightarrow> string \<Rightarrow> string \<Rightarrow> HardwareMonitor" where
  "record_error m now err ctx =
     (let st = (status m)\<lparr>error_count := error_count (status m) + 1\<rparr>;
          entry = \<lparr>err_timestamp = now, err_error = err, err_context = ctx,
                   err_state = state st\<rparr>;
          log = error_log m @ [entry]
      in m\<lparr>status := st,
            error_log := (if length log > 50 then pop0 log else log)\<rparr>)"

definition get_health_score :: "HardwareMonitor \<Rightarrow> real" where
  "get_health_score m =
     (let st = status m in
      if total_commands st = 0
      then (if state st = CONNECTED then 100 else 0)
      else
        let success_rate = real_of_int (successful_commands st) / real_of_int (total_commands st);
            response_penalty = min 20 (max 0 ((average_response_time st - 0.1) * 100));
            error_penalty =
              (real_of_int (error_count st) / real_of_int (max 1 (total_commands st))) * 30;
            health_score = success_rate * 100 - response_penalty - error_penalty
        in max 0 (min 100 health_score))"

text \<open>
  The operations of the monitor as data, so that a property can be stated over every
  sequence of calls made on a freshly constructed monitor.
\<close>

datatype monitor_op =
    UpdateResponseTime real
  | RecordCommand bool
  | RecordError real string string

fun apply_monitor_op :: "monitor_op \<Rightarrow> HardwareMonitor \<Rightarrow> HardwareMonitor" where
  "apply_monitor_op (UpdateResponseTime x) m = update_response_time m x"
| "apply_monitor_op (RecordCommand b) m = record_command m b"
| "apply_monitor_op (RecordError t e c) m = record_error m t e c"

fun run_monitor :: "monitor_op list \<Rightarrow> HardwareMonitor \<Rightarrow> HardwareMonitor" where
  "run_monitor [] m = m"
| "run_monitor (x # xs) m = run_monitor xs (apply_monitor_op x m)"

fun samples_of :: "monitor_op list \<Rightarrow> real list" where
  "samples_of [] = []"
| "samples_of (UpdateResponseTime x # xs) = x # samples_of xs"
| "samples_of (_ # xs) = samples_of xs"

fun errors_of :: "HardwareState \<Rightarrow> monitor_op list \<Rightarrow> error_entry list" where
  "errors_of s [] = []"
| "errors_of s (RecordError t e c # xs) =
     \<lparr>err_timestamp = t, err_error = e, err_context = c, err_state = s\<rparr> # errors_of s xs"
| "errors_of s (_ # xs) = errors_of s xs"


definition last_n :: "nat \<Rightarrow> 'a list \<Rightarrow> 'a list" where
  "last_n n xs = drop (length xs - n) xs"

text \<open>The number of errors a monitor holds beyond its failed commands.\<close>

definition surplus_errors :: "HardwareMonitor \<Rightarrow> int" where
  "surplus_errors m =
     successful_commands (status m) + error_count (status m) - total_commands (status m)"


text \<open>The health score as the specification words it.\<close>

definition successRate :: "HardwareMonitor \<Rightarrow> real" where
  "successRate m =
     real_of_int (successful_commands (status m)) / real_of_int (total_commands (status m))"

definition latencyPenalty :: "HardwareMonitor \<Rightarrow> real" where
  "latencyPenalty m = min 20 (max 0 ((average_response_time (status m) - 0.1) * 100))"

definition errorPenalty :: "HardwareMonitor \<Rightarrow> real" where
  "errorPenalty m =
     (real_of_int (error_count (status m)) / real_of_int (max 1 (total_commands (status m)))) * 30"

definition clamp_score :: "real \<Rightarrow> real" where
  "clamp_score x = (if x < 0 then 0 else if x > 100 then 100 else x)"

definition healthScore_spec :: "HardwareMonitor \<Rightarrow> real" where
  "healthScore_spec m =
     (if total_commands (status m) = 0
      then (if state (status m) = CONNECTED then 100 else 0)
      else clamp_score (100 * successRate m - latencyPenalty m - errorPenalty m))"

section \<open>Serial command channel (backend.py, class STM32HardwareInterface)\<close>

text \<open>
  The serial port and the device behind it are the environment. One exchange (a
  \<^verbatim>\<open>write\<close> followed by a \<^verbatim>\<open>readline\<close>) has an elapsed time, an outcome and the clock
  reading taken after it. The outcome is the decoded line, or the text of the exception
  that \<^verbatim>\<open>write\<close>, \<^verbatim>\<open>readline\<close> or \<^verbatim>\<open>decode\<close> raised. The device may answer
  depending on everything written so far.
\<close>

datatype link_outcome = Line string | Raises string

type_synonym exchange = "real \<times> link_outcome \<times> real"

record STM32HardwareInterface =
  port_open :: bool
  monitor :: HardwareMonitor
  written :: "string list"
  device :: "string list \<Rightarrow> exchange"

text \<open>
  \<^verbatim>\<open>str.strip()\<close> on ASCII text: the characters Python counts as white space below 128.
\<close>

definition py_isspace :: "char \<Rightarrow> bool" where
  "py_isspace c = (let n = of_char c :: nat in (9 \<le> n \<and> n \<le> 13) \<or> (28 \<le> n \<and> n \<le> 32))"

definition py_strip :: "string \<Rightarrow> string" where
  "py_strip s = rev (dropWhile py_isspace (rev (dropWhile py_isspace s)))"

definition is_connected :: "STM32HardwareInterface \<Rightarrow> bool" where
  "is_connected hw = (port_open hw \<and> state (status (monitor hw)) = CONNECTED)"

definition disconnect :: "STM32HardwareInterface \<Rightarrow> STM32HardwareInterface" where
  "disconnect hw =
     hw\<lparr>port_open := False,
        monitor := (monitor hw)\<lparr>status := (status (monitor hw))\<lparr>state := DISCONNECTED\<rparr>\<rparr>\<rparr>"

definition send_command ::
  "STM32HardwareInterface \<Rightarrow> string \<Rightarrow> string \<times> STM32HardwareInterface" where
  "send_command hw command =
     (if \<not> is_connected hw then (''Hardware not connected'', hw)
      else
        let w = written hw @ [command] in
        case device hw w of
          (response_time, Line raw, now) \<Rightarrow>
            let m1 = update_response_time (monitor hw) response_time;
                m2 = record_command m1 True;
                m3 = m2\<lparr>status := (status m2)\<lparr>last_command := Some now\<rparr>\<rparr>
            in (py_strip raw, hw\<lparr>written := w, monitor := m3\<rparr>)
        | (response_time, Raises e, now) \<Rightarrow>
            let m1 = update_response_time (monitor hw) response_time;
                m2 = record_command m1 False;
                m3 = record_error m2 now e command
            in (''Command error: '' @ e, hw\<lparr>written := w, monitor := m3\<rparr>))"

section \<open>Text and numbers of Python\<close>

text \<open>\<^verbatim>\<open>str(n)\<close> of an int, as an f-string prints it.\<close>

definition digit_char :: "nat \<Rightarrow> char" where
  "digit_char n = ''0123456789'' ! n"

fun str_nat :: "nat \<Rightarrow> string" where
  "str_nat n = (if n < 10 then [digit_char n] else str_nat (n div 10) @ [digit_char (n mod 10)])"

definition py_str :: "int \<Rightarrow> string" where
  "py_str i = (if i < 0 then CHR ''-'' # str_nat (nat (- i)) else str_nat (nat i))"

text \<open>
  \<^verbatim>\<open>str.isdigit()\<close> and \<^verbatim>\<open>int(s)\<close> on ASCII text: a line is all digits when it is not
  empty and every character is one of 0 to 9, and such a line is read in base ten.
\<close>

definition is_digit_char :: "char \<Rightarrow> bool" where
  "is_digit_char c = (let n = of_char c :: nat in 48 \<le> n \<and> n \<le> 57)"

definition py_isdigit :: "string \<Rightarrow> bool" where
  "py_isdigit s = (s \<noteq> [] \<and> list_all is_digit_char s)"

definition digit_value :: "char \<Rightarrow> int" where
  "digit_value c = int (of_char c) - 48"

definition py_int :: "string \<Rightarrow> int" where
  "py_int s = foldl (\<lambda>acc c. 10 * acc + digit_value c) 0 s"

text \<open>\<^verbatim>\<open>int(x)\<close> of a float: the fraction is cut off, towards zero.\<close>

definition py_int_of_float :: "real \<Rightarrow> int" where
  "py_int_of_float x = (if 0 \<le> x then \<lfloor>x\<rfloor> else \<lceil>x\<rceil>)"

text \<open>
  What the arithmetic of the interpreter fixes. Floats are IEEE doubles:
  \<open>round_double\<close> is the rounding of a real number to the nearest double and
  \<open>float_info_max\<close> is \<^verbatim>\<open>sys.float_info.max\<close>, the largest double.
  \<open>int_max_str_digits\<close> is \<^verbatim>\<open>sys.get_int_max_str_digits()\<close>, the most digits \<^verbatim>\<open>int(s)\<close>
  reads (4300 by default since Python 3.11); 0 is no limit. The three are parameters of
  the operations that compute with them, so that what is proved holds whatever they are.
\<close>

record interpreter =
  round_double :: "real \<Rightarrow> real"
  float_info_max :: real
  int_max_str_digits :: nat

text \<open>
  The double a real number rounds to, \<open>None\<close> when that is beyond the largest double.
  Converting such an int to a float raises \<^verbatim>\<open>OverflowError\<close>; an operation on floats
  with such a result gives an infinity instead, which every later addition keeps (or
  turns into a \<^verbatim>\<open>nan\<close>) and which \<^verbatim>\<open>int(x)\<close> refuses with \<^verbatim>\<open>OverflowError\<close>
  (\<^verbatim>\<open>ValueError\<close> for a \<^verbatim>\<open>nan\<close>).
\<close>

definition to_double :: "interpreter \<Rightarrow> real \<Rightarrow> real option" where
  "to_double py x =
     (let y = round_double py x in if \<bar>y\<bar> \<le> float_info_max py then Some y else None)"

text \<open>\<^verbatim>\<open>int(s)\<close> of a line that is all digits: \<^verbatim>\<open>ValueError\<close>, here \<open>None\<close>, when the
  line has more digits than the limit.\<close>

definition py_int_of_str :: "interpreter \<Rightarrow> string \<Rightarrow> int option" where
  "py_int_of_str py s =
     (if int_max_str_digits py \<noteq> 0 \<and> length s > int_max_str_digits py then None
      else Some (py_int s))"

text \<open>The largest double, and exact arithmetic within the range of the doubles with
  the default limit of digits.\<close>

definition double_max :: real where
  "double_max = (2 ^ 53 - 1) * 2 ^ 971"

definition exact_interpreter :: interpreter where
  "exact_interpreter =
     \<lparr>round_double = (\<lambda>x. x), float_info_max = double_max, int_max_str_digits = 4300\<rparr>"

text \<open>The values a dictionary of event data or of a step holds.\<close>

datatype py_value = VInt int | VStr string | VBool bool | VFloat real

subsection \<open>Connecting\<close>

text \<open>
  \<^verbatim>\<open>connect\<close>. Opening the port is the environment's: \<open>open_error\<close> is the text of the
  \<^verbatim>\<open>SerialException\<close> that \<^verbatim>\<open>serial.Serial\<close> raised, if it raised. The probe of
  \<^verbatim>\<open>_test_connection\<close> is written to the port directly, not through
  \<^verbatim>\<open>send_command\<close>, so the monitor does not count it.
\<close>

definition init_interface :: "(string list \<Rightarrow> exchange) \<Rightarrow> STM32HardwareInterface" where
  "init_interface dev =
     \<lparr>port_open = False, monitor = init_monitor, written = [], device = dev\<rparr>"



section \<open>Device service (backend.py, class HardwareService)\<close>

datatype EventType =
    CONNECTION_ESTABLISHED
  | CONNECTION_LOST
  | HARDWARE_ERROR
  | PIN_STATE_CHANGED
  | ANALOG_VALUE_CHANGED
  | SEQUENCE_STARTED
  | SEQUENCE_COMPLETED
  | SYSTEM_STATUS

record HardwareEvent =
  event_type :: EventType
  event_time :: real
  event_data :: "(string \<times> py_value) list"
  event_source :: string

definition new_event :: "EventType \<Rightarrow> real \<Rightarrow> (string \<times> py_value) list \<Rightarrow> HardwareEvent" where
  "new_event ty now d =
     \<lparr>event_type = ty, event_time = now, event_data = d, event_source = ''hardware''\<rparr>"

record PinConfiguration =
  pin_number :: int
  mode :: string
  initial_state :: int
  debounce_ms :: int
  smoothing_enabled :: bool
  smoothing_factor :: real

text \<open>
  The service with the interface it drives. \<open>events\<close> is what the service has put on
  the queue of the event manager, oldest first; the delivery of the queue to the
  subscribers runs on a thread of its own and is not modelled.
\<close>

record HardwareService =
  hardware :: STM32HardwareInterface
  events :: "HardwareEvent list"
  pin_configs :: "int \<rightharpoonup> PinConfiguration"
  analog_smoothing :: "string \<rightharpoonup> int list"
  smoothing_window :: int

definition init_service :: "STM32HardwareInterface \<Rightarrow> HardwareService" where
  "init_service hw =
     \<lparr>hardware = hw, events = [], pin_configs = Map.empty,
      analog_smoothing = Map.empty, smoothing_window = 5\<rparr>"

definition emit :: "HardwareService \<Rightarrow> HardwareEvent \<Rightarrow> HardwareService" where
  "emit svc ev = svc\<lparr>events := events svc @ [ev]\<rparr>"

definition configure_pin ::
  "HardwareService \<Rightarrow> int \<Rightarrow> string \<Rightarrow> int \<Rightarrow> bool \<Rightarrow> bool \<times> HardwareService" where
  "configure_pin svc pin md debounce smoothing =
     (case send_command (hardware svc) (''PIN_MODE:'' @ py_str pin @ '':'' @ md) of
        (response, hw') \<Rightarrow>
          if response = ''OK''
          then (True,
                svc\<lparr>hardware := hw',
                    pin_configs := (pin_configs svc)(pin \<mapsto>
                      \<lparr>pin_number = pin, mode = md, initial_state = 0,
                       debounce_ms = debounce, smoothing_enabled = smoothing,
                       smoothing_factor = 0.3\<rparr>)\<rparr>)
          else (False, svc\<lparr>hardware := hw'\<rparr>))"

definition digital_write ::
  "HardwareService \<Rightarrow> int \<Rightarrow> int \<Rightarrow> real \<Rightarrow> bool \<times> HardwareService" where
  "digital_write svc pin v now =
     (let svc1 = (if pin_configs svc pin = None
                  then snd (configure_pin svc pin ''OUTPUT'' 50 True)
                  else svc)
      in case send_command (hardware svc1)
                (''DIGITAL_WRITE:'' @ py_str pin @ '':'' @ py_str v) of
           (response, hw') \<Rightarrow>
             if response = ''OK''
             then (True,
                   emit (svc1\<lparr>hardware := hw'\<rparr>)
                     (new_event PIN_STATE_CHANGED now
                        [(''pin'', VInt pin), (''state'', VInt v), (''type'', VStr ''digital'')]))
             else (False, svc1\<lparr>hardware := hw'\<rparr>))"

definition digital_read ::
  "HardwareService \<Rightarrow> int \<Rightarrow> real \<Rightarrow> int option \<times> HardwareService" where
  "digital_read svc pin now =
     (case send_command (hardware svc) (''DIGITAL_READ:'' @ py_str pin) of
        (response, hw') \<Rightarrow>
          if response = ''0'' \<or> response = ''1''
          then (let v = py_int response in
                (Some v,
                 emit (svc\<lparr>hardware := hw'\<rparr>)
                   (new_event PIN_STATE_CHANGED now
                      [(''pin'', VInt pin), (''state'', VInt v), (''type'', VStr ''digital'')])))
          else (None, svc\<lparr>hardware := hw'\<rparr>))"

text \<open>
  The expression \<^verbatim>\<open>values[-1] * 0.7 + new_value * 0.3\<close> of \<^verbatim>\<open>_apply_smoothing\<close>, in
  the order Python evaluates it: each int is converted to a float, each literal,
  product and sum is rounded. \<open>None\<close> when a conversion raises or a result is not
  finite.
\<close>

definition smoothed_value :: "interpreter \<Rightarrow> int \<Rightarrow> int \<Rightarrow> real option" where
  "smoothed_value py last_value new_value =
     (case to_double py (real_of_int last_value) of
        None \<Rightarrow> None
      | Some a \<Rightarrow>
          (case to_double py (a * round_double py 0.7) of
             None \<Rightarrow> None
           | Some p \<Rightarrow>
               (case to_double py (real_of_int new_value) of
                  None \<Rightarrow> None
                | Some b \<Rightarrow>
                    (case to_double py (b * round_double py 0.3) of
                       None \<Rightarrow> None
                     | Some q \<Rightarrow> to_double py (p + q)))))"

text \<open>
  \<^verbatim>\<open>_apply_smoothing\<close>. \<^verbatim>\<open>values[-1]\<close> raises \<^verbatim>\<open>IndexError\<close> on an empty window,
  \<^verbatim>\<open>self.analog_smoothing[pin]\<close> raises \<^verbatim>\<open>KeyError\<close> on an unknown channel, and the blend
  or \<^verbatim>\<open>int(smoothed)\<close> raises when the blend is not a finite float: the result is then
  \<open>None\<close> and nothing has been changed. Otherwise it is the blended value, a float,
  and the service with the window updated.
\<close>

definition apply_smoothing ::
  "interpreter \<Rightarrow> HardwareService \<Rightarrow> string \<Rightarrow> int \<Rightarrow> (real \<times> HardwareService) option"
  where
  "apply_smoothing py svc pin new_value =
     (case analog_smoothing svc pin of
        None \<Rightarrow> None
      | Some vals \<Rightarrow>
          if vals = [] then None
          else
            (case smoothed_value py (last vals) new_value of
               None \<Rightarrow> None
             | Some smoothed \<Rightarrow>
                 let vals1 = vals @ [py_int_of_float smoothed];
                     vals2 = (if int (length vals1) > smoothing_window svc
                              then pop0 vals1 else vals1)
                 in Some (smoothed,
                          svc\<lparr>analog_smoothing := (analog_smoothing svc)(pin \<mapsto> vals2)\<rparr>)))"

text \<open>
  \<^verbatim>\<open>analog_read\<close>. Every exception raised inside it is caught and the result is then
  \<^verbatim>\<open>None\<close>; what \<^verbatim>\<open>send_command\<close> did to the interface stays.
\<close>

definition analog_read ::
  "interpreter \<Rightarrow> HardwareService \<Rightarrow> string \<Rightarrow> real \<Rightarrow> int option \<times> HardwareService"
  where
  "analog_read py svc pin now =
     (case send_command (hardware svc) (''ANALOG_READ:'' @ pin) of
        (response, hw') \<Rightarrow>
          let svc0 = svc\<lparr>hardware := hw'\<rparr> in
          if py_isdigit response
          then
            (case py_int_of_str py response of
               None \<Rightarrow> (None, svc0)
             | Some v \<Rightarrow>
                 if analog_smoothing svc0 pin \<noteq> None
                 then (case apply_smoothing py svc0 pin v of
                         None \<Rightarrow> (None, svc0)
                       | Some (smoothed, svc1) \<Rightarrow>
                           let final_value = py_int_of_float smoothed in
                           (Some final_value,
                            emit svc1
                              (new_event ANALOG_VALUE_CHANGED now
                                 [(''pin'', VStr pin), (''value'', VInt final_value),
                                  (''raw_value'', VInt v)])))
                 else
                   (Some v,
                    emit (svc0\<lparr>analog_smoothing :=
                                 (analog_smoothing svc0)
                                   (pin \<mapsto> replicate (nat (smoothing_window svc0)) v)\<rparr>)
                      (new_event ANALOG_VALUE_CHANGED now
                         [(''pin'', VStr pin), (''value'', VInt v), (''raw_value'', VInt v)])))
          else (None, svc0))"

definition on_connection_lost :: "HardwareService \<Rightarrow> HardwareService" where
  "on_connection_lost svc = svc\<lparr>analog_smoothing := Map.empty\<rparr>"

text \<open>
  A connected interface on a device, and a device that answers the same line to
  everything: the fixtures of the concrete runs below.
\<close>

definition connected_interface :: "(string list \<Rightarrow> exchange) \<Rightarrow> STM32HardwareInterface" where
  "connected_interface dev =
     (init_interface dev)
       \<lparr>port_open := True,
        monitor := init_monitor\<lparr>status := init_status\<lparr>state := CONNECTED\<rparr>\<rparr>\<rparr>"

definition answering :: "string \<Rightarrow> string list \<Rightarrow> exchange" where
  "answering line w = (0, Line line, 0)"

text \<open>A device that answers the k-th line written to it with the k-th line of a script.\<close>

definition scripted :: "string list \<Rightarrow> string list \<Rightarrow> exchange" where
  "scripted script w =
     (0, Line (if length w - 1 < length script then script ! (length w - 1) else []), 0)"

section \<open>Automation engine (backend.py, class AutomationEngine)\<close>

text \<open>
  A sequence is the dictionary built by \<^verbatim>\<open>create_sequence\<close>; a step is a dictionary
  of its own. The threads that run sequences are not modelled.
\<close>

type_synonym step = "(string \<times> py_value) list"

record sequence =
  seq_name :: string
  seq_steps :: "step list"
  seq_loop :: bool
  seq_interval :: real
  seq_enabled :: bool
  seq_current_step :: int
  seq_start_time :: "real option"

record AutomationEngine =
  sequences :: "string \<rightharpoonup> sequence"
  engine_events :: "HardwareEvent list"

definition init_engine :: AutomationEngine where
  "init_engine = \<lparr>sequences = Map.empty, engine_events = []\<rparr>"

definition create_sequence ::
  "AutomationEngine \<Rightarrow> string \<Rightarrow> step list \<Rightarrow> bool \<Rightarrow> real \<Rightarrow> real \<Rightarrow> bool \<times> AutomationEngine" where
  "create_sequence eng nm stps lp intv now =
     (let sq = \<lparr>seq_name = nm, seq_steps = stps, seq_loop = lp, seq_interval = intv,
                seq_enabled = True, seq_current_step = 0, seq_start_time = None\<rparr>
      in (True,
          eng\<lparr>sequences := (sequences eng)(nm \<mapsto> sq),
              engine_events := engine_events eng @
                [new_event SEQUENCE_STARTED now
                   [(''sequence_name'', VStr nm), (''step_count'', VInt (int (length stps)))]]\<rparr>))"

section \<open>Robotic arm backend (robotic_arm_backend.py)\<close>

datatype TrajectoryType = SMOOTH | LINEAR | CPG

datatype MotionProfile = FAST | NORMAL | SLOW | PRECISE

text \<open>The \<^verbatim>\<open>.value\<close> of a member, and the lookup \<^verbatim>\<open>TrajectoryType(text)\<close>, which
  raises \<^verbatim>\<open>ValueError\<close> on a text that is no value of the enumeration.\<close>

fun TrajectoryType_value :: "TrajectoryType \<Rightarrow> string" where
  "TrajectoryType_value SMOOTH = ''smooth''"
| "TrajectoryType_value LINEAR = ''linear''"
| "TrajectoryType_value CPG = ''cpg''"

fun MotionProfile_value :: "MotionProfile \<Rightarrow> string" where
  "MotionProfile_value FAST = ''fast''"
| "MotionProfile_value NORMAL = ''normal''"
| "MotionProfile_value SLOW = ''slow''"
| "MotionProfile_value PRECISE = ''precise''"

definition TrajectoryType_of :: "string \<Rightarrow> TrajectoryType option" where
  "TrajectoryType_of s =
     (if s = ''smooth'' then Some SMOOTH
      else if s = ''linear'' then Some LINEAR
      else if s = ''cpg'' then Some CPG
      else None)"

definition MotionProfile_of :: "string \<Rightarrow> MotionProfile option" where
  "MotionProfile_of s =
     (if s = ''fast'' then Some FAST
      else if s = ''normal'' then Some NORMAL
      else if s = ''slow'' then Some SLOW
      else if s = ''precise'' then Some PRECISE
      else None)"

record Waypoint =
  positions :: "real list"
  delay_ms :: int
  trajectory_type :: TrajectoryType
  motion_profile :: MotionProfile
  timestamp :: real

record TaskSequence =
  name :: string
  description :: string
  waypoints :: "Waypoint list"
  loop_count :: int
  created_at :: real
  modified_at :: real

text \<open>
  The backend. \<open>tasks\<close> is the dictionary of tasks in insertion order, its keys
  distinct. \<open>serial_present\<close> says that \<^verbatim>\<open>self.serial_port\<close> is not \<^verbatim>\<open>None\<close>;
  \<open>link_written\<close> and \<open>link_device\<close> are the serial link as above. A position callback
  is known by a number, and \<open>callback_calls\<close> lists the calls made, oldest first. The
  four \<open>pm\<close> fields are the dictionary \<^verbatim>\<open>performance_metrics\<close>.
\<close>

record RoboticArmBackend =
  max_waypoints :: int
  max_tasks :: int
  serial_present :: bool
  link_connected :: bool
  link_written :: "string list"
  link_device :: "string list \<Rightarrow> exchange"
  tasks :: "(string \<times> TaskSequence) list"
  current_positions :: "real list"
  position_callbacks :: "nat list"
  callback_calls :: "(nat \<times> real list) list"
  pm_total_commands :: int
  pm_successful_commands :: int
  pm_average_response_time :: real
  pm_error_count :: int

definition backend_init ::
  "int \<Rightarrow> int \<Rightarrow> (string list \<Rightarrow> exchange) \<Rightarrow> RoboticArmBackend" where
  "backend_init max_wp max_t dev =
     \<lparr>max_waypoints = max_wp, max_tasks = max_t, serial_present = False,
      link_connected = False, link_written = [], link_device = dev, tasks = [],
      current_positions = replicate 7 0, position_callbacks = [], callback_calls = [],
      pm_total_commands = 0, pm_successful_commands = 0, pm_average_response_time = 0,
      pm_error_count = 0\<rparr>"

text \<open>The constructor called without arguments.\<close>

definition default_backend :: "(string list \<Rightarrow> exchange) \<Rightarrow> RoboticArmBackend" where
  "default_backend dev = backend_init 250 6 dev"

definition arm_send_command ::
  "RoboticArmBackend \<Rightarrow> string \<Rightarrow> string \<times> RoboticArmBackend" where
  "arm_send_command arm command =
     (if \<not> link_connected arm \<or> \<not> serial_present arm then (''Not connected'', arm)
      else
        let w = link_written arm @ [command] in
        case link_device arm w of
          (response_time, Line raw, _) \<Rightarrow>
            let n_ok = pm_successful_commands arm + 1 in
            (py_strip raw,
             arm\<lparr>link_written := w,
                 pm_total_commands := pm_total_commands arm + 1,
                 pm_successful_commands := n_ok,
                 pm_average_response_time :=
                   (pm_average_response_time arm * real_of_int (n_ok - 1) + response_time)
                     / real_of_int n_ok\<rparr>)
        | (response_time, Raises e, _) \<Rightarrow>
            (''Error: '' @ e,
             arm\<lparr>link_written := w,
                 pm_total_commands := pm_total_commands arm + 1,
                 pm_error_count := pm_error_count arm + 1\<rparr>))"

text \<open>\<^verbatim>\<open>s.split(',')\<close>.\<close>

fun split_on :: "char \<Rightarrow> string \<Rightarrow> string list" where
  "split_on c [] = [[]]"
| "split_on c (x # xs) =
     (if x = c then [] # split_on c xs
      else (x # hd (split_on c xs)) # tl (split_on c xs))"

text \<open>
  \<^verbatim>\<open>float(x)\<close> on the text that can be a position: white space around it is ignored
  and a run of digits is read in base ten; \<open>None\<close> is the \<^verbatim>\<open>ValueError\<close>. Text of
  any other shape is outside this reading of \<^verbatim>\<open>float\<close>; behind the guard of
  \<^verbatim>\<open>read_all_positions\<close> no such text arrives.
\<close>

definition py_float :: "string \<Rightarrow> real option" where
  "py_float x =
     (if py_isdigit (py_strip x) then Some (real_of_int (py_int (py_strip x))) else None)"

text \<open>
  \<^verbatim>\<open>read_all_positions\<close>. A \<^verbatim>\<open>ValueError\<close> of \<^verbatim>\<open>float\<close> is caught by the handler of
  the method, which returns the empty list.
\<close>

definition read_all_positions :: "RoboticArmBackend \<Rightarrow> real list \<times> RoboticArmBackend" where
  "read_all_positions arm =
     (if \<not> link_connected arm then ([], arm)
      else
        case arm_send_command arm ''readall'' of
          (response, arm1) \<Rightarrow>
            if response \<noteq> [] \<and> py_isdigit response
            then
              (case those (map py_float (filter (\<lambda>x. py_strip x \<noteq> []) (split_on CHR '','' response))) of
                 None \<Rightarrow> ([], arm1)
               | Some ps \<Rightarrow>
                   if ps \<noteq> []
                   then (ps,
                         arm1\<lparr>current_positions := ps,
                              callback_calls := callback_calls arm1 @
                                map (\<lambda>cb. (cb, ps)) (position_callbacks arm1)\<rparr>)
                   else ([], arm1))
            else ([], arm1))"

definition add_position_callback :: "RoboticArmBackend \<Rightarrow> nat \<Rightarrow> RoboticArmBackend" where
  "add_position_callback arm cb = arm\<lparr>position_callbacks := position_callbacks arm @ [cb]\<rparr>"

subsection \<open>Tasks and waypoints\<close>

text \<open>Every clock reading made during one call is the argument \<open>now\<close> of the call.\<close>

definition create_task ::
  "RoboticArmBackend \<Rightarrow> string \<Rightarrow> string \<Rightarrow> real \<Rightarrow> TaskSequence option \<times> RoboticArmBackend" where
  "create_task arm nm descr now =
     (if int (length (tasks arm)) \<ge> max_tasks arm then (None, arm)
      else if map_of (tasks arm) nm \<noteq> None then (None, arm)
      else
        let task = \<lparr>name = nm, description = descr, waypoints = [], loop_count = 0,
                    created_at = now, modified_at = now\<rparr>
        in (Some task, arm\<lparr>tasks := AList.update nm task (tasks arm)\<rparr>))"

definition add_waypoint_to_task ::
  "RoboticArmBackend \<Rightarrow> string \<Rightarrow> real list \<Rightarrow> int \<Rightarrow> TrajectoryType \<Rightarrow> MotionProfile \<Rightarrow> real
     \<Rightarrow> bool \<times> RoboticArmBackend" where
  "add_waypoint_to_task arm task_name ps delay traj prof now =
     (case map_of (tasks arm) task_name of
        None \<Rightarrow> (False, arm)
      | Some task \<Rightarrow>
          if int (length (waypoints task)) \<ge> max_waypoints arm then (False, arm)
          else
            let waypoint = \<lparr>positions = ps, delay_ms = delay, trajectory_type = traj,
                            motion_profile = prof, timestamp = now\<rparr>
            in (True,
                arm\<lparr>tasks := AList.update task_name
                       (task\<lparr>waypoints := waypoints task @ [waypoint], modified_at := now\<rparr>)
                       (tasks arm)\<rparr>))"

subsection \<open>Saving and loading a task\<close>

text \<open>
  A JSON document as \<^verbatim>\<open>json.load\<close> returns it; an object is the list of its members,
  its keys distinct. \<^verbatim>\<open>json.dump\<close> followed by \<^verbatim>\<open>json.load\<close> is taken to give the
  document back: the file holds the document. A path holds a document, or is missing,
  or cannot be opened.
\<close>

datatype json =
    JNull
  | JBool bool
  | JInt int
  | JFloat real
  | JStr string
  | JArr "json list"
  | JObj "(string \<times> json) list"

datatype path_content = Missing | Holds json | Denied

type_synonym file_system = "string \<Rightarrow> path_content"

definition waypoint_json :: "Waypoint \<Rightarrow> json" where
  "waypoint_json wp =
     JObj [(''positions'', JArr (map JFloat (positions wp))),
           (''delay_ms'', JInt (delay_ms wp)),
           (''trajectory_type'', JStr (TrajectoryType_value (trajectory_type wp))),
           (''motion_profile'', JStr (MotionProfile_value (motion_profile wp)))]"

definition task_json :: "TaskSequence \<Rightarrow> json" where
  "task_json task =
     JObj [(''name'', JStr (name task)),
           (''description'', JStr (description task)),
           (''waypoints'', JArr (map waypoint_json (waypoints task))),
           (''created_at'', JFloat (created_at task)),
           (''modified_at'', JFloat (modified_at task))]"

definition save_task ::
  "RoboticArmBackend \<Rightarrow> file_system \<Rightarrow> string \<Rightarrow> string \<Rightarrow> bool \<times> file_system" where
  "save_task arm fs task_name filename =
     (case map_of (tasks arm) task_name of
        None \<Rightarrow> (False, fs)
      | Some task \<Rightarrow>
          (case fs filename of
             Denied \<Rightarrow> (False, fs)
           | _ \<Rightarrow> (True, fs(filename := Holds (task_json task)))))"

text \<open>
  Reading the loaded document. \<^verbatim>\<open>d.get(key, default)\<close> is \<open>dict_get\<close>. Python stores
  whatever the document holds; the fields here are typed, and a member of another type
  than its field (a name that is no text, a delay that is no integer) makes the reading
  fail as an exception does. Numbers are read as floats where the field is one.
\<close>

definition dict_get :: "(string \<times> json) list \<Rightarrow> string \<Rightarrow> json \<Rightarrow> json" where
  "dict_get d k dflt = (case map_of d k of None \<Rightarrow> dflt | Some v \<Rightarrow> v)"

fun as_number :: "json \<Rightarrow> real option" where
  "as_number (JFloat r) = Some r"
| "as_number (JInt i) = Some (real_of_int i)"
| "as_number _ = None"

fun as_int :: "json \<Rightarrow> int option" where
  "as_int (JInt i) = Some i"
| "as_int _ = None"

fun as_str :: "json \<Rightarrow> string option" where
  "as_str (JStr s) = Some s"
| "as_str _ = None"

fun as_numbers :: "json \<Rightarrow> real list option" where
  "as_numbers (JArr xs) = those (map as_number xs)"
| "as_numbers _ = None"

fun as_trajectory :: "json \<Rightarrow> TrajectoryType option" where
  "as_trajectory (JStr s) = TrajectoryType_of s"
| "as_trajectory _ = None"

fun as_profile :: "json \<Rightarrow> MotionProfile option" where
  "as_profile (JStr s) = MotionProfile_of s"
| "as_profile _ = None"

fun load_waypoint :: "real \<Rightarrow> json \<Rightarrow> Waypoint option" where
  "load_waypoint now (JObj d) =
     (case map_of d ''positions'' of
        None \<Rightarrow> None
      | Some p \<Rightarrow>
          (case (as_numbers p,
                 as_int (dict_get d ''delay_ms'' (JInt 500)),
                 as_trajectory (dict_get d ''trajectory_type'' (JStr ''smooth'')),
                 as_profile (dict_get d ''motion_profile'' (JStr ''normal''))) of
             (Some ps, Some dl, Some tr, Some pr) \<Rightarrow>
               Some \<lparr>positions = ps, delay_ms = dl, trajectory_type = tr,
                     motion_profile = pr, timestamp = now\<rparr>
           | _ \<Rightarrow> None))"
| "load_waypoint now _ = None"

fun as_waypoints :: "real \<Rightarrow> json \<Rightarrow> Waypoint list option" where
  "as_waypoints now (JArr xs) = those (map (load_waypoint now) xs)"
| "as_waypoints now _ = None"

fun read_task :: "real \<Rightarrow> json \<Rightarrow> TaskSequence option" where
  "read_task now (JObj d) =
     (case map_of d ''name'' of
        None \<Rightarrow> None
      | Some n \<Rightarrow>
          (case (as_str n,
                 as_str (dict_get d ''description'' (JStr [])),
                 as_number (dict_get d ''created_at'' (JFloat now)),
                 as_number (dict_get d ''modified_at'' (JFloat now)),
                 as_waypoints now (dict_get d ''waypoints'' (JArr []))) of
             (Some nm, Some descr, Some c, Some m, Some wps) \<Rightarrow>
               Some \<lparr>name = nm, description = descr, waypoints = wps, loop_count = 0,
                     created_at = c, modified_at = m\<rparr>
           | _ \<Rightarrow> None))"
| "read_task now _ = None"

definition load_task ::
  "RoboticArmBackend \<Rightarrow> file_system \<Rightarrow> string \<Rightarrow> real \<Rightarrow> string option \<times> RoboticArmBackend" where
  "load_task arm fs filename now =
     (case fs filename of
        Holds doc \<Rightarrow>
          (case read_task now doc of
             None \<Rightarrow> (None, arm)
           | Some task \<Rightarrow>
               (Some (name task), arm\<lparr>tasks := AList.update (name task) task (tasks arm)\<rparr>))
      | _ \<Rightarrow> (None, arm))"

text \<open>What the round trip of a waypoint is compared on: positions, delay and the two
  tags. The time stamp of a waypoint is not written to the file.\<close>

definition waypoint_core ::
  "Waypoint \<Rightarrow> real list \<times> int \<times> TrajectoryType \<times> MotionProfile" where
  "waypoint_core wp = (positions wp, delay_ms wp, trajectory_type wp, motion_profile wp)"

text \<open>
  A connected backend on a device that answers the same line to everything, with two
  callbacks registered: the fixture of the concrete runs below.
\<close>

definition connected_backend :: "string \<Rightarrow> RoboticArmBackend" where
  "connected_backend line =
     (default_backend (\<lambda>w. (0, Line line, 0)))
       \<lparr>serial_present := True, link_connected := True, position_callbacks := [1, 2]\<rparr>"

section \<open>Fixtures of the concrete runs\<close>

text \<open>The service after the first read of channel A0 on a device that answers 10 and
  then 11; a service whose window of A0 holds a value beyond the doubles, as the first
  read of a reply of 309 digits leaves it; a table of six tasks; a task that holds 250
  waypoints; a task of two waypoints.\<close>

definition svc_after_first_read :: HardwareService where
  "svc_after_first_read =
     snd (analog_read exact_interpreter
            (init_service (connected_interface (scripted [''10'', ''11'']))) ''A0'' 0)"

definition beyond_doubles :: int where
  "beyond_doubles = 2 ^ 1024"

definition svc_huge_window :: HardwareService where
  "svc_huge_window =
     (init_service (connected_interface (answering ''5'')))
       \<lparr>analog_smoothing := [''A0'' \<mapsto> replicate 5 beyond_doubles]\<rparr>"

definition six_tasks :: "(string \<times> TaskSequence) list" where
  "six_tasks =
     map (\<lambda>n. (n, \<lparr>name = n, description = [], waypoints = [], loop_count = 0,
                   created_at = 0, modified_at = 0\<rparr>))
       [''t1'', ''t2'', ''t3'', ''t4'', ''t5'', ''t6'']"

definition full_task :: TaskSequence where
  "full_task =
     \<lparr>name = ''full'', description = [],
      waypoints = replicate 250
        \<lparr>positions = [0], delay_ms = 500, trajectory_type = SMOOTH,
         motion_profile = NORMAL, timestamp = 0\<rparr>,
      loop_count = 0, created_at = 0, modified_at = 0\<rparr>"

definition demo_task :: TaskSequence where
  "demo_task =
     \<lparr>name = ''pick'', description = ''pick and place'',
      waypoints =
        [\<lparr>positions = [90, 45, 10], delay_ms = 500, trajectory_type = SMOOTH,
          motion_profile = NORMAL, timestamp = 3\<rparr>,
         \<lparr>positions = [0, 45, 120], delay_ms = 0, trajectory_type = CPG,
          motion_profile = PRECISE, timestamp = 4\<rparr>],
      loop_count = 2, created_at = 1, modified_at = 4\<rparr>"

section \<open>Properties of the health monitor\<close>

lemma surplus_update_response_time [simp]:
  "surplus_errors (update_response_time m x) = surplus_errors m"
  by (simp add: surplus_errors_def update_response_time_def Let_def)

lemma surplus_record_command [simp]:
  "surplus_errors (record_command m b) = surplus_errors m"
  by (simp add: surplus_errors_def record_command_def Let_def)

lemma surplus_record_error [simp]:
  "surplus_errors (record_error m t e c) = surplus_errors m + 1"
  by (simp add: surplus_errors_def record_error_def Let_def)









lemma last_n_absorb: "last_n n (last_n n xs @ ys) = last_n n (xs @ ys)"
  by (simp add: last_n_def) (rule arg_cong [where f = "\<lambda>k. drop k xs"], arith)

lemma last_n_short: "length xs \<le> n \<Longrightarrow> last_n n xs = xs"
  by (simp add: last_n_def)

lemma last_n_length: "length (last_n n xs) \<le> n"
  by (simp add: last_n_def)

lemma window_push:
  "(if length (xs @ [x]) > n then pop0 (xs @ [x]) else xs @ [x]) = last_n n (xs @ [x])"
  if "length xs \<le> n"
proof (cases "length (xs @ [x]) > n")
  case True
  with that have "length xs = n" by simp
  then have "last_n n (xs @ [x]) = drop (Suc 0) (xs @ [x])"
    by (simp add: last_n_def)
  also have "\<dots> = pop0 (xs @ [x])"
    by (simp only: pop0_def drop_Suc drop_0)
  finally show ?thesis using True by simp
next
  case False
  then show ?thesis by (simp add: last_n_def)
qed

lemma response_times_update:
  "length (response_times m) \<le> 100 \<Longrightarrow>
   response_times (update_response_time m x) = last_n 100 (response_times m @ [x])"
  using window_push [of "response_times m" 100 x]
  by (simp add: update_response_time_def Let_def)

lemma error_log_record_error:
  "length (error_log m) \<le> 50 \<Longrightarrow>
   error_log (record_error m t e c) =
     last_n 50 (error_log m @
       [\<lparr>err_timestamp = t, err_error = e, err_context = c, err_state = state (status m)\<rparr>])"
  using window_push [of "error_log m" 50
      "\<lparr>err_timestamp = t, err_error = e, err_context = c, err_state = state (status m)\<rparr>"]
  by (auto simp: record_error_def Let_def split: if_splits)

lemma state_apply_monitor_op [simp]:
  "state (status (apply_monitor_op x m)) = state (status m)"
  by (cases x) (simp_all add: update_response_time_def record_command_def record_error_def Let_def)

lemma response_times_other [simp]:
  "response_times (record_command m b) = response_times m"
  "response_times (record_error m t e c) = response_times m"
  by (simp_all add: record_command_def record_error_def Let_def)

lemma error_log_other [simp]:
  "error_log (record_command m b) = error_log m"
  "error_log (update_response_time m x) = error_log m"
  by (simp_all add: record_command_def update_response_time_def Let_def)

lemma response_times_run:
  "length (response_times m) \<le> 100 \<Longrightarrow>
   response_times (run_monitor ops m) = last_n 100 (response_times m @ samples_of ops)"
proof (induction ops arbitrary: m)
  case Nil
  then show ?case by (simp add: last_n_short)
next
  case (Cons x xs)
  show ?case
  proof (cases x)
    case (UpdateResponseTime r)
    have "length (response_times (update_response_time m r)) \<le> 100"
      using Cons.prems by (simp add: response_times_update last_n_length)
    from Cons.IH [OF this] UpdateResponseTime Cons.prems show ?thesis
      using last_n_absorb [of 100 "response_times m @ [r]" "samples_of xs"]
      by (simp add: response_times_update)
  next
    case (RecordCommand b)
    with Cons.IH [of "record_command m b"] Cons.prems show ?thesis by simp
  next
    case (RecordError t e c)
    with Cons.IH [of "record_error m t e c"] Cons.prems show ?thesis by simp
  qed
qed

lemma error_log_run:
  "length (error_log m) \<le> 50 \<Longrightarrow>
   error_log (run_monitor ops m) = last_n 50 (error_log m @ errors_of (state (status m)) ops)"
proof (induction ops arbitrary: m)
  case Nil
  then show ?case by (simp add: last_n_short)
next
  case (Cons x xs)
  show ?case
  proof (cases x)
    case (UpdateResponseTime r)
    have "state (status (update_response_time m r)) = state (status m)"
      using state_apply_monitor_op [of "UpdateResponseTime r" m] by simp
    with Cons.IH [of "update_response_time m r"] Cons.prems UpdateResponseTime
    show ?thesis by simp
  next
    case (RecordCommand b)
    have "state (status (record_command m b)) = state (status m)"
      using state_apply_monitor_op [of "RecordCommand b" m] by simp
    with Cons.IH [of "record_command m b"] Cons.prems RecordCommand
    show ?thesis by simp
  next
    case (RecordError t e c)
    let ?entry = "\<lparr>err_timestamp = t, err_error = e, err_context = c,
                    err_state = state (status m)\<rparr>"
    have s: "state (status (record_error m t e c)) = state (status m)"
      using state_apply_monitor_op [of "RecordError t e c" m] by simp
    have "length (error_log (record_error m t e c)) \<le> 50"
      using Cons.prems by (simp add: error_log_record_error last_n_length)
    from Cons.IH [OF this] RecordError Cons.prems s show ?thesis
      using last_n_absorb [of 50 "error_log m @ [?entry]" "errors_of (state (status m)) xs"]
      by (simp add: error_log_record_error)
  qed
qed

text \<open>Claim C8. After every sequence of monitor operations on a fresh monitor the
  latency window holds at most 100 samples and the error log at most 50 entries, and
  they are the most recent 100 samples and the most recent 50 errors in the order of
  their arrival: the oldest is the one dropped.\<close>

theorem C8_windows_bounded_fifo:
  "length (response_times (run_monitor ops init_monitor)) \<le> 100
   \<and> length (error_log (run_monitor ops init_monitor)) \<le> 50
   \<and> response_times (run_monitor ops init_monitor) = last_n 100 (samples_of ops)
   \<and> error_log (run_monitor ops init_monitor) = last_n 50 (errors_of DISCONNECTED ops)"
proof -
  have r: "response_times (run_monitor ops init_monitor) = last_n 100 (samples_of ops)"
    using response_times_run [of init_monitor ops] by (simp add: init_monitor_def)
  have e: "error_log (run_monitor ops init_monitor) = last_n 50 (errors_of DISCONNECTED ops)"
    using error_log_run [of init_monitor ops] by (simp add: init_monitor_def init_status_def)
  show ?thesis
    by (simp add: r e last_n_length)
qed

lemma clamp_score_max_min: "clamp_score x = max 0 (min 100 x)"
  by (simp add: clamp_score_def min_def max_def)

lemma health_score_refines: "get_health_score m = healthScore_spec m"
  by (simp add: get_health_score_def healthScore_spec_def Let_def successRate_def
      latencyPenalty_def errorPenalty_def clamp_score_max_min mult.commute)

lemma health_score_range: "0 \<le> get_health_score m \<and> get_health_score m \<le> 100"
  by (simp add: get_health_score_def Let_def)

text \<open>Claim C3. The health score computed by \<^verbatim>\<open>get_health_score\<close> is the one of the
  specification: 100 times the success rate, minus the latency penalty, minus the error
  penalty, clamped to the interval from 0 to 100; and while no command has been issued
  it is 100 if and only if the state is Connected, and 0 otherwise.\<close>

theorem C3_health_score:
  "get_health_score m = healthScore_spec m
   \<and> 0 \<le> get_health_score m \<and> get_health_score m \<le> 100
   \<and> (total_commands (status m) \<noteq> 0 \<longrightarrow>
        get_health_score m =
          clamp_score (100 * successRate m - latencyPenalty m - errorPenalty m))
   \<and> (total_commands (status m) = 0 \<longrightarrow>
        (get_health_score m = 100 \<longleftrightarrow> state (status m) = CONNECTED)
        \<and> (state (status m) \<noteq> CONNECTED \<longrightarrow> get_health_score m = 0))"
  using health_score_refines [of m] health_score_range [of m]
  by (simp add: healthScore_spec_def)

theorem C3_health_score_witness:
  "total_commands (status (init_monitor\<lparr>status := init_status\<lparr>state := CONNECTED\<rparr>\<rparr>)) = 0
   \<and> get_health_score (init_monitor\<lparr>status := init_status\<lparr>state := CONNECTED\<rparr>\<rparr>) = 100
   \<and> total_commands (status init_monitor) = 0
   \<and> state (status init_monitor) \<noteq> CONNECTED
   \<and> get_health_score init_monitor = 0
   \<and> total_commands (status (record_command init_monitor True)) \<noteq> 0
   \<and> get_health_score (record_command init_monitor True) = 100"
  using C3_health_score [of "init_monitor\<lparr>status := init_status\<lparr>state := CONNECTED\<rparr>\<rparr>"]
        C3_health_score [of init_monitor]
        C3_health_score [of "record_command init_monitor True"]
  by (simp add: init_monitor_def init_status_def record_command_def Let_def
      clamp_score_def successRate_def latencyPenalty_def errorPenalty_def)

section \<open>Properties of the command channel\<close>

lemma state_after_success:
  "state (status (record_command (update_response_time m rt) True)) = state (status m)"
  by (simp add: record_command_def update_response_time_def Let_def)

lemma state_after_failure:
  "state (status (record_error (record_command (update_response_time m rt) False) now e c))
     = state (status m)"
  by (simp add: record_error_def record_command_def update_response_time_def Let_def)

lemma send_command_disconnected:
  "\<not> is_connected hw \<Longrightarrow> send_command hw c = (''Hardware not connected'', hw)"
  by (simp add: send_command_def)

lemma send_command_frame:
  "written (snd (send_command hw c)) = written hw @ (if is_connected hw then [c] else [])
   \<and> port_open (snd (send_command hw c)) = port_open hw
   \<and> state (status (monitor (snd (send_command hw c)))) = state (status (monitor hw))"
proof (cases "is_connected hw")
  case False
  then show ?thesis by (simp add: send_command_disconnected)
next
  case True
  obtain rt out now where d: "device hw (written hw @ [c]) = (rt, out, now)"
    by (cases "device hw (written hw @ [c])") auto
  show ?thesis
  proof (cases out)
    case (Line r)
    with True d show ?thesis
      by (simp add: send_command_def Let_def state_after_success)
  next
    case (Raises e)
    with True d show ?thesis
      by (simp add: send_command_def Let_def state_after_failure)
  qed
qed

lemma written_send_command:
  "written (snd (send_command hw c)) = written hw @ (if is_connected hw then [c] else [])"
  using send_command_frame [of hw c] by blast

lemma is_connected_send_command:
  "is_connected (snd (send_command hw c)) = is_connected hw"
  using send_command_frame [of hw c] by (simp add: is_connected_def)

section \<open>Properties of the device service\<close>

lemma hardware_configure_pin:
  "hardware (snd (configure_pin svc pin md db sm)) =
     snd (send_command (hardware svc) (''PIN_MODE:'' @ py_str pin @ '':'' @ md))"
  by (simp add: configure_pin_def split: prod.splits)

lemma pin_configs_configure_pin:
  "pin_configs (snd (configure_pin svc pin md db sm)) =
     (if fst (send_command (hardware svc) (''PIN_MODE:'' @ py_str pin @ '':'' @ md)) = ''OK''
      then (pin_configs svc)(pin \<mapsto>
             \<lparr>pin_number = pin, mode = md, initial_state = 0, debounce_ms = db,
              smoothing_enabled = sm, smoothing_factor = 0.3\<rparr>)
      else pin_configs svc)"
  by (simp add: configure_pin_def split: prod.splits)

lemma hardware_digital_write:
  "hardware (snd (digital_write svc pin v now)) =
     snd (send_command
            (if pin_configs svc pin = None
             then snd (send_command (hardware svc) (''PIN_MODE:'' @ py_str pin @ '':OUTPUT''))
             else hardware svc)
            (''DIGITAL_WRITE:'' @ py_str pin @ '':'' @ py_str v))"
  using hardware_configure_pin [of svc pin "''OUTPUT''" 50 True]
  by (simp add: digital_write_def Let_def emit_def split: prod.splits)

lemma pin_configs_digital_write:
  "pin_configs (snd (digital_write svc pin v now)) =
     (if pin_configs svc pin = None
      then pin_configs (snd (configure_pin svc pin ''OUTPUT'' 50 True))
      else pin_configs svc)"
proof (cases "pin_configs svc pin = None")
  case True
  obtain r h where
    "send_command (hardware (snd (configure_pin svc pin ''OUTPUT'' 50 True)))
       (''DIGITAL_WRITE:'' @ py_str pin @ '':'' @ py_str v) = (r, h)"
    by (cases "send_command (hardware (snd (configure_pin svc pin ''OUTPUT'' 50 True)))
       (''DIGITAL_WRITE:'' @ py_str pin @ '':'' @ py_str v)") auto
  with True show ?thesis by (simp add: digital_write_def Let_def emit_def)
next
  case False
  obtain r h where
    "send_command (hardware svc) (''DIGITAL_WRITE:'' @ py_str pin @ '':'' @ py_str v) = (r, h)"
    by (cases "send_command (hardware svc)
       (''DIGITAL_WRITE:'' @ py_str pin @ '':'' @ py_str v)") auto
  moreover from False obtain y where "pin_configs svc pin = Some y" by auto
  ultimately show ?thesis by (simp add: digital_write_def Let_def emit_def)
qed

lemma hardware_digital_read:
  "hardware (snd (digital_read svc pin now)) =
     snd (send_command (hardware svc) (''DIGITAL_READ:'' @ py_str pin))"
  by (simp add: digital_read_def Let_def emit_def split: prod.splits)

lemma pin_configs_digital_read:
  "pin_configs (snd (digital_read svc pin now)) = pin_configs svc"
  by (simp add: digital_read_def Let_def emit_def split: prod.splits)

text \<open>Claim C9. On a pin that the table of pin configurations does not hold,
  \<^verbatim>\<open>digital_write\<close> configures the pin as output first and writes then: on a connected
  link the line \<^verbatim>\<open>PIN_MODE:<pin>:OUTPUT\<close> goes out before the line
  \<^verbatim>\<open>DIGITAL_WRITE:<pin>:<state>\<close>, and the table receives the pin with mode OUTPUT
  when the device acknowledges the configuration with \<^verbatim>\<open>OK\<close>. \<^verbatim>\<open>digital_read\<close>
  never changes the table and sends the read alone.\<close>

theorem C9_write_configures_read_does_not:
  "(pin_configs svc pin = None \<longrightarrow>
      written (hardware (snd (digital_write svc pin v now))) =
        written (hardware svc) @
          (if is_connected (hardware svc)
           then [''PIN_MODE:'' @ py_str pin @ '':OUTPUT'',
                 ''DIGITAL_WRITE:'' @ py_str pin @ '':'' @ py_str v]
           else [])
      \<and> pin_configs (snd (digital_write svc pin v now)) =
          (if fst (send_command (hardware svc) (''PIN_MODE:'' @ py_str pin @ '':OUTPUT'')) = ''OK''
           then (pin_configs svc)(pin \<mapsto>
                  \<lparr>pin_number = pin, mode = ''OUTPUT'', initial_state = 0, debounce_ms = 50,
                   smoothing_enabled = True, smoothing_factor = 0.3\<rparr>)
           else pin_configs svc))
   \<and> pin_configs (snd (digital_read svc pin now)) = pin_configs svc
   \<and> written (hardware (snd (digital_read svc pin now))) =
       written (hardware svc) @
         (if is_connected (hardware svc) then [''DIGITAL_READ:'' @ py_str pin] else [])"
proof -
  let ?pm = "''PIN_MODE:'' @ py_str pin @ '':OUTPUT''"
  let ?dw = "''DIGITAL_WRITE:'' @ py_str pin @ '':'' @ py_str v"
  have w: "pin_configs svc pin = None \<Longrightarrow>
      written (hardware (snd (digital_write svc pin v now))) =
        written (hardware svc) @ (if is_connected (hardware svc) then [?pm, ?dw] else [])"
  proof -
    assume n: "pin_configs svc pin = None"
    have "written (hardware (snd (digital_write svc pin v now))) =
            written (snd (send_command (snd (send_command (hardware svc) ?pm)) ?dw))"
      using n hardware_digital_write [of svc pin v now] by simp
    also have "\<dots> = written (snd (send_command (hardware svc) ?pm)) @
        (if is_connected (snd (send_command (hardware svc) ?pm)) then [?dw] else [])"
      by (rule written_send_command)
    also have "\<dots> = (written (hardware svc) @ (if is_connected (hardware svc) then [?pm] else []))
        @ (if is_connected (hardware svc) then [?dw] else [])"
      by (simp only: written_send_command is_connected_send_command)
    finally show ?thesis by simp
  qed
  have c: "pin_configs svc pin = None \<Longrightarrow>
      pin_configs (snd (digital_write svc pin v now)) =
          (if fst (send_command (hardware svc) ?pm) = ''OK''
           then (pin_configs svc)(pin \<mapsto>
                  \<lparr>pin_number = pin, mode = ''OUTPUT'', initial_state = 0, debounce_ms = 50,
                   smoothing_enabled = True, smoothing_factor = 0.3\<rparr>)
           else pin_configs svc)"
    using pin_configs_digital_write [of svc pin v now]
          pin_configs_configure_pin [of svc pin "''OUTPUT''" 50 True]
    by simp
  have r: "written (hardware (snd (digital_read svc pin now))) =
       written (hardware svc) @
         (if is_connected (hardware svc) then [''DIGITAL_READ:'' @ py_str pin] else [])"
    by (simp only: hardware_digital_read written_send_command)
  from w c r pin_configs_digital_read [of svc pin now] show ?thesis by blast
qed

lemma fixture_connected: "is_connected (connected_interface dev)"
  by (simp add: is_connected_def connected_interface_def init_interface_def
      init_monitor_def init_status_def)

lemma fixture_answer:
  "fst (send_command (connected_interface (answering ''OK'')) c) = ''OK''"
  by (simp add: send_command_def is_connected_def connected_interface_def init_interface_def
      init_monitor_def init_status_def answering_def Let_def py_strip_def py_isspace_def)

theorem C9_write_configures_read_does_not_witness:
  "pin_configs (init_service (connected_interface (answering ''OK''))) 13 = None
   \<and> written (hardware (snd (digital_write
        (init_service (connected_interface (answering ''OK''))) 13 1 0))) =
       [''PIN_MODE:13:OUTPUT'', ''DIGITAL_WRITE:13:1'']
   \<and> map_option mode (pin_configs (snd (digital_write
        (init_service (connected_interface (answering ''OK''))) 13 1 0)) 13) = Some ''OUTPUT''
   \<and> pin_configs (snd (digital_read
        (init_service (connected_interface (answering ''OK''))) 13 0)) 13 = None"
  using C9_write_configures_read_does_not
          [of "init_service (connected_interface (answering ''OK''))" 13 1 0]
        fixture_connected [of "answering ''OK''"]
        fixture_answer [of "''PIN_MODE:13:OUTPUT''"]
  by (simp add: init_service_def py_str_def digit_char_def)
     (simp add: connected_interface_def init_interface_def)

subsection \<open>Analog smoothing\<close>

lemma smoothed_value_rounded:
  assumes "smoothed_value py a b = Some x"
  shows "x = round_double py
               (round_double py (round_double py (real_of_int a) * round_double py 0.7)
                + round_double py (round_double py (real_of_int b) * round_double py 0.3))"
  using assms
  by (auto simp: smoothed_value_def to_double_def Let_def split: option.splits if_splits)

lemma smoothed_value_unrounded:
  assumes "round_double py = (\<lambda>x. x)"
    and "\<bar>real_of_int a\<bar> \<le> float_info_max py" and "\<bar>real_of_int b\<bar> \<le> float_info_max py"
  shows "smoothed_value py a b = Some (real_of_int a * 0.7 + real_of_int b * 0.3)"
proof -
  have p: "\<bar>real_of_int a * 0.7\<bar> = \<bar>real_of_int a\<bar> * 0.7"
    and q: "\<bar>real_of_int b * 0.3\<bar> = \<bar>real_of_int b\<bar> * 0.3"
    by (simp_all add: abs_mult)
  have 1: "\<bar>real_of_int a * 0.7\<bar> \<le> float_info_max py"
    using assms(2) p by linarith
  have 2: "\<bar>real_of_int b * 0.3\<bar> \<le> float_info_max py"
    using assms(3) q by linarith
  have 3: "\<bar>real_of_int a * 0.7 + real_of_int b * 0.3\<bar> \<le> float_info_max py"
    using assms(2,3) p q by linarith
  from assms 1 2 3 show ?thesis
    by (simp add: smoothed_value_def to_double_def Let_def)
qed

lemma exact_interpreter_fields:
  "round_double exact_interpreter = (\<lambda>x. x)"
  "float_info_max exact_interpreter = double_max"
  "int_max_str_digits exact_interpreter = 4300"
  by (simp_all add: exact_interpreter_def)

lemma double_max_lower: "2 ^ 53 \<le> double_max"
proof -
  have "(1::real) \<le> 2 ^ 971" by (rule one_le_power) simp
  then have "(2 ^ 53 - 1) * (2::real) \<le> (2 ^ 53 - 1) * 2 ^ 971"
    by (intro mult_left_mono) simp_all
  moreover have "(2::real) ^ 53 \<le> (2 ^ 53 - 1) * 2" by simp
  ultimately show ?thesis unfolding double_max_def by (rule order_trans [rotated])
qed

lemma double_max_upper: "double_max < real_of_int beyond_doubles"
proof -
  have n: "(1024::nat) = 53 + 971" by simp
  have e: "(2::real) ^ 1024 = 2 ^ 53 * 2 ^ 971" by (subst n) (rule power_add)
  have z: "(0::real) < 2 ^ 971" by (rule zero_less_power) simp
  have "(2 ^ 53 - 1) * (2::real) ^ 971 < 2 ^ 53 * 2 ^ 971"
    by (rule mult_strict_right_mono [OF _ z]) simp
  with e have "double_max < 2 ^ 1024" unfolding double_max_def by (simp only:)
  moreover have "real_of_int beyond_doubles = 2 ^ 1024"
    unfolding beyond_doubles_def by (simp only: of_int_power of_int_numeral)
  ultimately show ?thesis by (simp only:)
qed

lemma apply_smoothing_result:
  assumes "analog_smoothing svc pin = Some vs" and "vs \<noteq> []"
    and "smoothed_value py (last vs) v = Some x"
  shows "\<exists>svc1 vs'. apply_smoothing py svc pin v = Some (x, svc1)
          \<and> analog_smoothing svc1 pin = Some vs' \<and> vs' \<noteq> []
          \<and> last vs' = py_int_of_float x"
proof -
  let ?x = "py_int_of_float x"
  from assms(2) obtain a as where vs: "vs = a # as" by (cases vs) auto
  have p: "pop0 (vs @ [?x]) \<noteq> [] \<and> last (pop0 (vs @ [?x])) = ?x"
    by (simp add: pop0_def vs)
  show ?thesis
  proof (cases "int (length (vs @ [?x])) > smoothing_window svc")
    case True
    with assms p show ?thesis by (simp add: apply_smoothing_def Let_def)
  next
    case False
    with assms show ?thesis by (simp add: apply_smoothing_def Let_def)
  qed
qed

lemma apply_smoothing_raises:
  assumes "analog_smoothing svc pin = Some vs"
    and "vs = [] \<or> smoothed_value py (last vs) v = None"
  shows "apply_smoothing py svc pin v = None"
  using assms by (auto simp: apply_smoothing_def)

lemma analog_read_first:
  assumes "fst (send_command (hardware svc) (''ANALOG_READ:'' @ pin)) = resp"
    and "py_isdigit resp" and "py_int_of_str py resp = Some r"
    and "analog_smoothing svc pin = None"
  shows "fst (analog_read py svc pin now) = Some r
       \<and> analog_smoothing (snd (analog_read py svc pin now)) pin =
           Some (replicate (nat (smoothing_window svc)) r)"
proof -
  obtain s hw' where s: "send_command (hardware svc) (''ANALOG_READ:'' @ pin) = (s, hw')"
    by (cases "send_command (hardware svc) (''ANALOG_READ:'' @ pin)") auto
  with assms(1) have r: "s = resp" by simp
  from s r assms(2,3,4) show ?thesis
    by (simp add: analog_read_def Let_def emit_def)
qed

lemma analog_read_later:
  assumes "fst (send_command (hardware svc) (''ANALOG_READ:'' @ pin)) = resp"
    and "py_isdigit resp" and "py_int_of_str py resp = Some r"
    and "analog_smoothing svc pin = Some vs" and "vs \<noteq> []"
    and "smoothed_value py (last vs) r = Some x"
  shows "fst (analog_read py svc pin now) = Some (py_int_of_float x)
       \<and> (\<exists>vs'. analog_smoothing (snd (analog_read py svc pin now)) pin = Some vs' \<and> vs' \<noteq> []
            \<and> last vs' = py_int_of_float x)"
proof -
  obtain s hw' where s: "send_command (hardware svc) (''ANALOG_READ:'' @ pin) = (s, hw')"
    by (cases "send_command (hardware svc) (''ANALOG_READ:'' @ pin)") auto
  with assms(1) have r: "s = resp" by simp
  let ?svc0 = "svc\<lparr>hardware := hw'\<rparr>"
  have "analog_smoothing ?svc0 pin = Some vs" using assms(4) by simp
  from apply_smoothing_result [OF this assms(5,6)]
  obtain svc1 vs' where a:
    "apply_smoothing py ?svc0 pin r = Some (x, svc1)"
    "analog_smoothing svc1 pin = Some vs'" "vs' \<noteq> []"
    "last vs' = py_int_of_float x"
    by blast
  from s r assms(2,3,4) a show ?thesis
    by (simp add: analog_read_def Let_def emit_def)
qed

lemma analog_read_raises:
  assumes "fst (send_command (hardware svc) (''ANALOG_READ:'' @ pin)) = resp"
    and "py_isdigit resp"
    and "py_int_of_str py resp = None
         \<or> (\<exists>r vs. py_int_of_str py resp = Some r \<and> analog_smoothing svc pin = Some vs
               \<and> (vs = [] \<or> smoothed_value py (last vs) r = None))"
  shows "fst (analog_read py svc pin now) = None
       \<and> analog_smoothing (snd (analog_read py svc pin now)) = analog_smoothing svc
       \<and> events (snd (analog_read py svc pin now)) = events svc"
proof -
  obtain s hw' where s: "send_command (hardware svc) (''ANALOG_READ:'' @ pin) = (s, hw')"
    by (cases "send_command (hardware svc) (''ANALOG_READ:'' @ pin)") auto
  with assms(1) have r: "s = resp" by simp
  let ?svc0 = "svc\<lparr>hardware := hw'\<rparr>"
  from assms(3) show ?thesis
  proof
    assume "py_int_of_str py resp = None"
    with s r assms(2) show ?thesis by (simp add: analog_read_def Let_def)
  next
    assume "\<exists>r vs. py_int_of_str py resp = Some r \<and> analog_smoothing svc pin = Some vs
               \<and> (vs = [] \<or> smoothed_value py (last vs) r = None)"
    then obtain v vs where v: "py_int_of_str py resp = Some v"
      and w: "analog_smoothing svc pin = Some vs"
      and e: "vs = [] \<or> smoothed_value py (last vs) v = None"
      by blast
    have "analog_smoothing ?svc0 pin = Some vs" using w by simp
    from apply_smoothing_raises [OF this e]
    have "apply_smoothing py ?svc0 pin v = None" .
    with s r assms(2) v w show ?thesis by (simp add: analog_read_def Let_def)
  qed
qed

lemma fixture_blend:
  "smoothed_value exact_interpreter 10 11 = Some (103 / 10)"
  "py_int_of_float (103 / 10) = 10"
proof -
  have "\<bar>real_of_int 10\<bar> \<le> float_info_max exact_interpreter"
    and "\<bar>real_of_int 11\<bar> \<le> float_info_max exact_interpreter"
    using double_max_lower by (simp_all add: exact_interpreter_fields)
  from smoothed_value_unrounded [OF exact_interpreter_fields(1) this]
  show "smoothed_value exact_interpreter 10 11 = Some (103 / 10)" by simp
  show "py_int_of_float (103 / 10) = 10" by (simp add: py_int_of_float_def)
qed

text \<open>Claim C2, as the specification states it, fails at the second read of a channel
  whose device answers 10 and then 11: the blend of the two is 10.3, and the value
  returned is the integer 10. The run is in exact arithmetic; no rounding of the blend
  makes an integer equal to 10.3.\<close>

theorem C2_counterexample:
  "fst (analog_read exact_interpreter
          (init_service (connected_interface (scripted [''10'', ''11'']))) ''A0'' 0)
     = Some 10
   \<and> fst (analog_read exact_interpreter
            (snd (analog_read exact_interpreter
                    (init_service (connected_interface (scripted [''10'', ''11'']))) ''A0'' 0))
            ''A0'' 1) = Some 10
   \<and> real_of_int 10 \<noteq> 0.7 * real_of_int 10 + 0.3 * real_of_int 11"
  by (simp add: analog_read_def apply_smoothing_def send_command_def is_connected_def
      init_service_def connected_interface_def init_interface_def scripted_def
      init_monitor_def init_status_def Let_def emit_def pop0_def
      update_response_time_def record_command_def
      py_strip_def py_isspace_def py_isdigit_def is_digit_char_def py_int_def digit_value_def
      py_int_of_float_def py_int_of_str_def exact_interpreter_fields fixture_blend)

text \<open>Claim C2, amended. Let the device answer a run of digits. When \<^verbatim>\<open>int\<close> reads the
  run as the sample r: the first read of a channel returns r itself and seeds the
  window with copies of it; a later read, when the blend of the last value of the
  window and r is a finite float x, returns x cut to an integer, and that integer is
  the last value of the window afterwards, where x is the last value times 0.7 plus r
  times 0.3 with every literal, conversion, product and sum rounded to a double. The
  value fed back into the next blend is thus the integer returned, not the blend. When
  \<^verbatim>\<open>int\<close> refuses the run for its length, when the window is empty, or when the blend is
  not a finite float (a value of the window or the sample is beyond the doubles), the
  read returns \<^verbatim>\<open>None\<close>, no window changes and no event is emitted. This holds for every
  rounding, largest double and limit of digits.\<close>

theorem C2_smoothing_truncated:
  assumes "fst (send_command (hardware svc) (''ANALOG_READ:'' @ pin)) = resp"
    and "py_isdigit resp"
  shows "(\<forall>r. py_int_of_str py resp = Some r \<and> analog_smoothing svc pin = None \<longrightarrow>
            fst (analog_read py svc pin now) = Some r
          \<and> analog_smoothing (snd (analog_read py svc pin now)) pin =
              Some (replicate (nat (smoothing_window svc)) r))
       \<and> (\<forall>r vs x. py_int_of_str py resp = Some r \<and> analog_smoothing svc pin = Some vs
                 \<and> vs \<noteq> [] \<and> smoothed_value py (last vs) r = Some x \<longrightarrow>
            fst (analog_read py svc pin now) = Some (py_int_of_float x)
          \<and> (\<exists>vs'. analog_smoothing (snd (analog_read py svc pin now)) pin = Some vs'
                \<and> vs' \<noteq> [] \<and> last vs' = py_int_of_float x)
          \<and> x = round_double py
                  (round_double py (round_double py (real_of_int (last vs)) * round_double py 0.7)
                   + round_double py (round_double py (real_of_int r) * round_double py 0.3)))
       \<and> (py_int_of_str py resp = None
           \<or> (\<exists>r vs. py_int_of_str py resp = Some r \<and> analog_smoothing svc pin = Some vs
                 \<and> (vs = [] \<or> smoothed_value py (last vs) r = None)) \<longrightarrow>
            fst (analog_read py svc pin now) = None
          \<and> analog_smoothing (snd (analog_read py svc pin now)) = analog_smoothing svc
          \<and> events (snd (analog_read py svc pin now)) = events svc)"
proof (intro conjI allI impI)
  fix r assume "py_int_of_str py resp = Some r \<and> analog_smoothing svc pin = None"
  then have a: "py_int_of_str py resp = Some r" and b: "analog_smoothing svc pin = None"
    by simp_all
  from analog_read_first [OF assms a b, of now]
  show "fst (analog_read py svc pin now) = Some r"
    and "analog_smoothing (snd (analog_read py svc pin now)) pin =
           Some (replicate (nat (smoothing_window svc)) r)"
    by simp_all
next
  fix r vs x
  assume h: "py_int_of_str py resp = Some r \<and> analog_smoothing svc pin = Some vs
               \<and> vs \<noteq> [] \<and> smoothed_value py (last vs) r = Some x"
  then have a: "py_int_of_str py resp = Some r" and b: "analog_smoothing svc pin = Some vs"
    and c: "vs \<noteq> []" and d: "smoothed_value py (last vs) r = Some x"
    by simp_all
  from analog_read_later [OF assms a b c d, of now]
  show "fst (analog_read py svc pin now) = Some (py_int_of_float x)"
    and "\<exists>vs'. analog_smoothing (snd (analog_read py svc pin now)) pin = Some vs'
           \<and> vs' \<noteq> [] \<and> last vs' = py_int_of_float x"
    by simp_all
  from smoothed_value_rounded [OF d]
  show "x = round_double py
              (round_double py (round_double py (real_of_int (last vs)) * round_double py 0.7)
               + round_double py (round_double py (real_of_int r) * round_double py 0.3))" .
next
  assume h: "py_int_of_str py resp = None
           \<or> (\<exists>r vs. py_int_of_str py resp = Some r \<and> analog_smoothing svc pin = Some vs
                 \<and> (vs = [] \<or> smoothed_value py (last vs) r = None))"
  from analog_read_raises [OF assms h, of now]
  show "fst (analog_read py svc pin now) = None"
    and "analog_smoothing (snd (analog_read py svc pin now)) = analog_smoothing svc"
    and "events (snd (analog_read py svc pin now)) = events svc"
    by simp_all
qed

lemma fixture_first_answer:
  "fst (send_command (hardware (init_service (connected_interface (scripted [''10'', ''11'']))))
         ''ANALOG_READ:A0'') = ''10''"
  by (simp add: send_command_def is_connected_def
      init_service_def connected_interface_def init_interface_def scripted_def
      init_monitor_def init_status_def Let_def py_strip_def py_isspace_def)

lemma fixture_after_first_read:
  "analog_smoothing svc_after_first_read ''A0'' = Some [10, 10, 10, 10, 10]
   \<and> fst (send_command (hardware svc_after_first_read) ''ANALOG_READ:A0'') = ''11''"
  by (simp add: svc_after_first_read_def analog_read_def send_command_def is_connected_def
      init_service_def connected_interface_def init_interface_def scripted_def
      init_monitor_def init_status_def Let_def emit_def
      update_response_time_def record_command_def
      py_strip_def py_isspace_def py_isdigit_def is_digit_char_def py_int_def digit_value_def
      py_int_of_str_def exact_interpreter_fields eval_nat_numeral)

lemma fixture_huge_window:
  "analog_smoothing svc_huge_window ''A0'' = Some (replicate 5 beyond_doubles)
   \<and> fst (send_command (hardware svc_huge_window) ''ANALOG_READ:A0'') = ''5''"
  by (simp add: svc_huge_window_def send_command_def is_connected_def
      init_service_def connected_interface_def init_interface_def answering_def
      init_monitor_def init_status_def Let_def py_strip_def py_isspace_def)

lemma fixture_digits:
  "py_isdigit ''10''" "py_isdigit ''11''" "py_isdigit ''5''"
  "py_int_of_str exact_interpreter ''10'' = Some 10"
  "py_int_of_str exact_interpreter ''11'' = Some 11"
  "py_int_of_str exact_interpreter ''5'' = Some 5"
  by (simp_all add: py_isdigit_def is_digit_char_def py_int_def digit_value_def
      py_int_of_str_def exact_interpreter_fields)

lemma fixture_overflow:
  "smoothed_value exact_interpreter beyond_doubles 5 = None"
proof -
  have "0 \<le> double_max" using double_max_lower by simp
  with double_max_upper have "\<not> \<bar>real_of_int beyond_doubles\<bar> \<le> double_max" by linarith
  then show ?thesis
    by (simp add: smoothed_value_def to_double_def exact_interpreter_fields)
qed

theorem C2_smoothing_truncated_witness:
  "fst (send_command (hardware (init_service (connected_interface (scripted [''10'', ''11'']))))
         ''ANALOG_READ:A0'') = ''10''
   \<and> py_isdigit ''10''
   \<and> py_int_of_str exact_interpreter ''10'' = Some 10
   \<and> analog_smoothing (init_service (connected_interface (scripted [''10'', ''11'']))) ''A0'' = None
   \<and> fst (analog_read exact_interpreter
            (init_service (connected_interface (scripted [''10'', ''11'']))) ''A0'' 0)
       = Some 10
   \<and> fst (send_command (hardware svc_after_first_read) ''ANALOG_READ:A0'') = ''11''
   \<and> py_isdigit ''11''
   \<and> py_int_of_str exact_interpreter ''11'' = Some 11
   \<and> analog_smoothing svc_after_first_read ''A0'' = Some [10, 10, 10, 10, 10]
   \<and> smoothed_value exact_interpreter 10 11 = Some (103 / 10)
   \<and> fst (analog_read exact_interpreter svc_after_first_read ''A0'' 1) = Some 10
   \<and> fst (send_command (hardware svc_huge_window) ''ANALOG_READ:A0'') = ''5''
   \<and> py_isdigit ''5''
   \<and> py_int_of_str exact_interpreter ''5'' = Some 5
   \<and> analog_smoothing svc_huge_window ''A0'' = Some (replicate 5 beyond_doubles)
   \<and> smoothed_value exact_interpreter beyond_doubles 5 = None
   \<and> fst (analog_read exact_interpreter svc_huge_window ''A0'' 2) = None"
proof -
  have n: "analog_smoothing (init_service (connected_interface (scripted [''10'', ''11'']))) ''A0''
      = None"
    by (simp add: init_service_def)
  from C2_smoothing_truncated
         [where py = exact_interpreter
            and svc = "init_service (connected_interface (scripted [''10'', ''11'']))"
            and pin = "''A0''" and resp = "''10''" and now = 0]
       fixture_first_answer fixture_digits(1,4) n
  have a: "fst (analog_read exact_interpreter
                  (init_service (connected_interface (scripted [''10'', ''11'']))) ''A0'' 0)
       = Some 10"
    by simp
  from fixture_after_first_read
  have f: "fst (send_command (hardware svc_after_first_read) ''ANALOG_READ:A0'') = ''11''"
    and g: "analog_smoothing svc_after_first_read ''A0'' = Some [10, 10, 10, 10, 10]"
    by simp_all
  have f': "fst (send_command (hardware svc_after_first_read) (''ANALOG_READ:'' @ ''A0'')) = ''11''"
    using f by simp
  have s: "smoothed_value exact_interpreter (last [10, 10, 10, 10, 10]) 11 = Some (103 / 10)"
    using fixture_blend(1) by simp
  from C2_smoothing_truncated
         [where py = exact_interpreter and svc = svc_after_first_read
            and pin = "''A0''" and resp = "''11''" and now = 1, OF f' fixture_digits(2)]
       g fixture_digits(5) s
  have "fst (analog_read exact_interpreter svc_after_first_read ''A0'' 1)
          = Some (py_int_of_float (103 / 10))"
    by blast
  with fixture_blend(2)
  have b: "fst (analog_read exact_interpreter svc_after_first_read ''A0'' 1) = Some 10"
    by simp
  from fixture_huge_window
  have h: "fst (send_command (hardware svc_huge_window) ''ANALOG_READ:A0'') = ''5''"
    and w: "analog_smoothing svc_huge_window ''A0'' = Some (replicate 5 beyond_doubles)"
    by simp_all
  have l: "last (replicate 5 beyond_doubles) = beyond_doubles"
    by simp
  from C2_smoothing_truncated
         [where py = exact_interpreter and svc = svc_huge_window
            and pin = "''A0''" and resp = "''5''" and now = 2]
       h w l fixture_digits(3,6) fixture_overflow
  have c: "fst (analog_read exact_interpreter svc_huge_window ''A0'' 2) = None"
    by simp
  from fixture_first_answer fixture_digits n a f g fixture_blend(1) b h w fixture_overflow c
  show ?thesis by simp
qed

subsection \<open>Losing the connection\<close>

text \<open>Claim C6, as the specification states it, fails on a service whose pin 13 has been
  configured: after the interface has disconnected and the handler of the lost
  connection has run, the table of pin configurations still holds pin 13.\<close>

theorem C6_counterexample:
  "pin_configs
     (on_connection_lost
        ((snd (configure_pin (init_service (connected_interface (answering ''OK''))) 13
                 ''OUTPUT'' 50 True))
           \<lparr>hardware := disconnect (hardware
               (snd (configure_pin (init_service (connected_interface (answering ''OK''))) 13
                       ''OUTPUT'' 50 True)))\<rparr>)) 13
   \<noteq> None"
  using fixture_answer [of "''PIN_MODE:13:OUTPUT''"]
  by (simp add: on_connection_lost_def pin_configs_configure_pin init_service_def
      py_str_def digit_char_def)

text \<open>Claim C6, amended. The handler of the lost connection empties the smoothing state
  of every channel and leaves the table of pin configurations as it is; disconnecting
  the interface closes the port and sets the state to Disconnected, after which the
  interface is not connected.\<close>

theorem C6_connection_lost:
  "analog_smoothing (on_connection_lost svc) = Map.empty
   \<and> pin_configs (on_connection_lost svc) = pin_configs svc
   \<and> hardware (on_connection_lost svc) = hardware svc
   \<and> \<not> is_connected (disconnect hw)
   \<and> \<not> port_open (disconnect hw)
   \<and> state (status (monitor (disconnect hw))) = DISCONNECTED"
  by (simp add: on_connection_lost_def disconnect_def is_connected_def)

section \<open>Properties of the automation engine\<close>

text \<open>Claim C4, as the specification states it, fails on an engine that holds the
  sequence blink: creating blink again returns success and replaces the definition.\<close>

theorem C4_counterexample:
  "fst (create_sequence
          (snd (create_sequence init_engine ''blink'' [[(''action'', VStr ''WAIT'')]] False 1 0))
          ''blink'' [] True 2 1) = True
   \<and> sequences
        (snd (create_sequence
                (snd (create_sequence init_engine ''blink'' [[(''action'', VStr ''WAIT'')]] False 1 0))
                ''blink'' [] True 2 1)) ''blink''
     \<noteq> sequences
          (snd (create_sequence init_engine ''blink'' [[(''action'', VStr ''WAIT'')]] False 1 0))
          ''blink''"
  by (simp add: create_sequence_def init_engine_def Let_def)

text \<open>Claim C4, amended. \<^verbatim>\<open>create_sequence\<close> returns success for every name, whether
  the table holds it or not; afterwards the table holds under that name the new
  definition (enabled, at step 0, not started), every other name is as before, and one
  event with the number of steps has been emitted.\<close>

theorem C4_create_sequence_overwrites:
  "fst (create_sequence eng nm stps lp intv now) = True
   \<and> sequences (snd (create_sequence eng nm stps lp intv now)) n =
       (if n = nm
        then Some \<lparr>seq_name = nm, seq_steps = stps, seq_loop = lp, seq_interval = intv,
                   seq_enabled = True, seq_current_step = 0, seq_start_time = None\<rparr>
        else sequences eng n)
   \<and> engine_events (snd (create_sequence eng nm stps lp intv now)) =
       engine_events eng @
         [new_event SEQUENCE_STARTED now
            [(''sequence_name'', VStr nm), (''step_count'', VInt (int (length stps)))]]"
  by (simp add: create_sequence_def Let_def)

section \<open>Properties of the robotic arm backend\<close>

text \<open>Claim C5 on the code. A connected backend whose device answers the three positions
  10,20,30 to \<^verbatim>\<open>readall\<close>: the line is sent, the reading of the answer that the method
  itself applies would give the three positions, and yet the method returns the empty
  list, keeps the cached positions and calls no callback, because the answer is not all
  digits. An answer of digits alone is returned as one position, cached and passed to
  every callback.\<close>

theorem C5_readall_rejects_comma_list:
  "fst (read_all_positions (connected_backend ''10,20,30'')) = []
   \<and> link_written (snd (read_all_positions (connected_backend ''10,20,30''))) = [''readall'']
   \<and> current_positions (snd (read_all_positions (connected_backend ''10,20,30'')))
       = current_positions (connected_backend ''10,20,30'')
   \<and> callback_calls (snd (read_all_positions (connected_backend ''10,20,30''))) = []
   \<and> those (map py_float (filter (\<lambda>x. py_strip x \<noteq> []) (split_on CHR '','' ''10,20,30'')))
       = Some [10, 20, 30]
   \<and> fst (read_all_positions (connected_backend ''90'')) = [90]
   \<and> current_positions (snd (read_all_positions (connected_backend ''90''))) = [90]
   \<and> callback_calls (snd (read_all_positions (connected_backend ''90''))) = [(1, [90]), (2, [90])]"
  by (simp add: read_all_positions_def connected_backend_def default_backend_def backend_init_def
      arm_send_command_def Let_def py_strip_def py_isspace_def py_isdigit_def is_digit_char_def
      py_float_def py_int_def digit_value_def)

subsection \<open>Creating tasks, adding waypoints\<close>

lemma update_absent: "map_of al k = None \<Longrightarrow> AList.update k v al = al @ [(k, v)]"
  by (induction al) (auto split: if_splits)

text \<open>Claim C10. \<^verbatim>\<open>create_task\<close> returns nothing and changes nothing when the table
  holds the name or holds \<open>max_tasks\<close> tasks or more; otherwise it returns a new task
  of that name without waypoints and the table holds it, as its last entry.
  \<^verbatim>\<open>add_waypoint_to_task\<close> returns failure and changes nothing when the task holds
  \<open>max_waypoints\<close> waypoints or more. The constructor without arguments sets the two
  limits to 6 and 250.\<close>

theorem C10_limits:
  "(map_of (tasks arm) nm \<noteq> None \<or> int (length (tasks arm)) \<ge> max_tasks arm \<longrightarrow>
      create_task arm nm descr now = (None, arm))
   \<and> (map_of (tasks arm) nm = None \<and> int (length (tasks arm)) < max_tasks arm \<longrightarrow>
      create_task arm nm descr now =
        (Some \<lparr>name = nm, description = descr, waypoints = [], loop_count = 0,
               created_at = now, modified_at = now\<rparr>,
         arm\<lparr>tasks := tasks arm @
                [(nm, \<lparr>name = nm, description = descr, waypoints = [], loop_count = 0,
                       created_at = now, modified_at = now\<rparr>)]\<rparr>))
   \<and> (\<forall>task. map_of (tasks arm) tn = Some task
          \<and> int (length (waypoints task)) \<ge> max_waypoints arm \<longrightarrow>
        add_waypoint_to_task arm tn ps delay traj prof now = (False, arm))
   \<and> max_tasks (default_backend dev) = 6
   \<and> max_waypoints (default_backend dev) = 250"
  by (auto simp: create_task_def add_waypoint_to_task_def Let_def update_absent
      default_backend_def backend_init_def)

theorem C10_limits_witness:
  "int (length (tasks ((default_backend (answering ''OK''))\<lparr>tasks := six_tasks\<rparr>)))
     \<ge> max_tasks ((default_backend (answering ''OK''))\<lparr>tasks := six_tasks\<rparr>)
   \<and> create_task ((default_backend (answering ''OK''))\<lparr>tasks := six_tasks\<rparr>) ''t7'' [] 1
      = (None, (default_backend (answering ''OK''))\<lparr>tasks := six_tasks\<rparr>)
   \<and> map_of (tasks (default_backend (answering ''OK''))) ''t1'' = None
   \<and> int (length (tasks (default_backend (answering ''OK''))))
       < max_tasks (default_backend (answering ''OK''))
   \<and> fst (create_task (default_backend (answering ''OK'')) ''t1'' [] 1)
      = Some \<lparr>name = ''t1'', description = [], waypoints = [], loop_count = 0,
              created_at = 1, modified_at = 1\<rparr>
   \<and> map_of (tasks ((default_backend (answering ''OK''))\<lparr>tasks := [(''full'', full_task)]\<rparr>))
       ''full'' = Some full_task
   \<and> int (length (waypoints full_task))
       \<ge> max_waypoints ((default_backend (answering ''OK''))\<lparr>tasks := [(''full'', full_task)]\<rparr>)
   \<and> add_waypoint_to_task
        ((default_backend (answering ''OK''))\<lparr>tasks := [(''full'', full_task)]\<rparr>)
        ''full'' [1] 500 SMOOTH NORMAL 1
      = (False, (default_backend (answering ''OK''))\<lparr>tasks := [(''full'', full_task)]\<rparr>)"
proof -
  let ?b = "default_backend (answering ''OK'')"
  have l: "int (length (tasks (?b\<lparr>tasks := six_tasks\<rparr>))) \<ge> max_tasks (?b\<lparr>tasks := six_tasks\<rparr>)"
    by (simp add: six_tasks_def default_backend_def backend_init_def)
  have e: "map_of (tasks ?b) ''t1'' = None \<and> int (length (tasks ?b)) < max_tasks ?b"
    by (simp add: default_backend_def backend_init_def)
  have f: "map_of (tasks (?b\<lparr>tasks := [(''full'', full_task)]\<rparr>)) ''full'' = Some full_task
      \<and> int (length (waypoints full_task))
          \<ge> max_waypoints (?b\<lparr>tasks := [(''full'', full_task)]\<rparr>)"
    by (simp add: full_task_def default_backend_def backend_init_def)
  from C10_limits [where arm = "?b\<lparr>tasks := six_tasks\<rparr>" and nm = "''t7''"
                     and descr = "[]" and now = 1] l
  have a: "create_task (?b\<lparr>tasks := six_tasks\<rparr>) ''t7'' [] 1 = (None, ?b\<lparr>tasks := six_tasks\<rparr>)"
    by blast
  from C10_limits [where arm = ?b and nm = "''t1''" and descr = "[]" and now = 1] e
  have b: "fst (create_task ?b ''t1'' [] 1)
      = Some \<lparr>name = ''t1'', description = [], waypoints = [], loop_count = 0,
              created_at = 1, modified_at = 1\<rparr>"
    by simp
  from C10_limits [where arm = "?b\<lparr>tasks := [(''full'', full_task)]\<rparr>" and tn = "''full''"
                     and ps = "[1]" and delay = 500 and traj = SMOOTH and prof = NORMAL
                     and now = 1] f
  have c: "add_waypoint_to_task (?b\<lparr>tasks := [(''full'', full_task)]\<rparr>)
        ''full'' [1] 500 SMOOTH NORMAL 1 = (False, ?b\<lparr>tasks := [(''full'', full_task)]\<rparr>)"
    by blast
  from l e f a b c show ?thesis by simp
qed

subsection \<open>Saving a task and loading it again\<close>

lemma those_numbers: "those (map (as_number \<circ> JFloat) ps) = Some ps"
  by (induction ps) simp_all

lemma trajectory_roundtrip: "TrajectoryType_of (TrajectoryType_value t) = Some t"
  by (cases t) (simp_all add: TrajectoryType_of_def)

lemma profile_roundtrip: "MotionProfile_of (MotionProfile_value p) = Some p"
  by (cases p) (simp_all add: MotionProfile_of_def)

lemma load_waypoint_json:
  "load_waypoint now (waypoint_json wp) = Some (wp\<lparr>timestamp := now\<rparr>)"
  by (cases wp)
     (simp add: waypoint_json_def dict_get_def those_numbers trajectory_roundtrip
        profile_roundtrip)

lemma those_waypoints:
  "those (map (load_waypoint now \<circ> waypoint_json) wps) =
     Some (map (\<lambda>w. w\<lparr>timestamp := now\<rparr>) wps)"
  by (induction wps) (simp_all add: load_waypoint_json)

lemma read_task_json:
  "read_task now (task_json task) =
     Some (task\<lparr>waypoints := map (\<lambda>w. w\<lparr>timestamp := now\<rparr>) (waypoints task), loop_count := 0\<rparr>)"
  by (cases task) (simp add: task_json_def dict_get_def those_waypoints)

lemma core_restamped: "waypoint_core (w\<lparr>timestamp := now\<rparr>) = waypoint_core w"
  by (simp add: waypoint_core_def)

text \<open>Claim C7. For a task of the table and a path that can be opened, \<^verbatim>\<open>save_task\<close>
  succeeds, and \<^verbatim>\<open>load_task\<close> of the written file, into any backend, returns the name
  of the task and leaves under that name a task of the same name and description whose
  waypoints are equal to the saved ones in number, order, positions, delay, trajectory
  type and motion profile.\<close>

theorem C7_save_load_roundtrip:
  assumes "map_of (tasks arm) task_name = Some task" and "fs filename \<noteq> Denied"
  shows "fst (save_task arm fs task_name filename) = True
       \<and> fst (load_task arm2 (snd (save_task arm fs task_name filename)) filename now)
           = Some (name task)
       \<and> map_option name
           (map_of (tasks (snd (load_task arm2 (snd (save_task arm fs task_name filename))
                                  filename now))) (name task)) = Some (name task)
       \<and> map_option description
           (map_of (tasks (snd (load_task arm2 (snd (save_task arm fs task_name filename))
                                  filename now))) (name task)) = Some (description task)
       \<and> map_option (map waypoint_core \<circ> waypoints)
           (map_of (tasks (snd (load_task arm2 (snd (save_task arm fs task_name filename))
                                  filename now))) (name task))
           = Some (map waypoint_core (waypoints task))"
proof -
  have s: "save_task arm fs task_name filename = (True, fs(filename := Holds (task_json task)))"
    using assms by (cases "fs filename") (simp_all add: save_task_def)
  let ?t = "task\<lparr>waypoints := map (\<lambda>w. w\<lparr>timestamp := now\<rparr>) (waypoints task), loop_count := 0\<rparr>"
  have l: "load_task arm2 (fs(filename := Holds (task_json task))) filename now =
      (Some (name task), arm2\<lparr>tasks := AList.update (name task) ?t (tasks arm2)\<rparr>)"
    by (simp add: load_task_def read_task_json)
  have m: "map_of (AList.update (name task) ?t (tasks arm2)) (name task) = Some ?t"
    by (simp add: update_conv')
  show ?thesis
    by (simp add: s l m core_restamped)
qed

theorem C7_save_load_roundtrip_witness:
  "map_of (tasks ((default_backend (answering ''OK''))\<lparr>tasks := [(''pick'', demo_task)]\<rparr>)) ''pick''
     = Some demo_task
   \<and> (\<lambda>p. Missing) ''pick.json'' \<noteq> Denied
   \<and> fst (load_task (default_backend (answering ''OK''))
            (snd (save_task ((default_backend (answering ''OK''))\<lparr>tasks := [(''pick'', demo_task)]\<rparr>)
                    (\<lambda>p. Missing) ''pick'' ''pick.json''))
            ''pick.json'' 9) = Some ''pick''
   \<and> map_option (map waypoint_core \<circ> waypoints)
       (map_of (tasks (snd (load_task (default_backend (answering ''OK''))
            (snd (save_task ((default_backend (answering ''OK''))\<lparr>tasks := [(''pick'', demo_task)]\<rparr>)
                    (\<lambda>p. Missing) ''pick'' ''pick.json''))
            ''pick.json'' 9))) ''pick'')
     = Some [([90, 45, 10], 500, SMOOTH, NORMAL), ([0, 45, 120], 0, CPG, PRECISE)]"
proof -
  let ?a = "(default_backend (answering ''OK''))\<lparr>tasks := [(''pick'', demo_task)]\<rparr>"
  have h: "map_of (tasks ?a) ''pick'' = Some demo_task" by simp
  have d: "(\<lambda>p. Missing) ''pick.json'' \<noteq> Denied" by simp
  have n: "name demo_task = ''pick''" by (simp add: demo_task_def)
  have w: "map waypoint_core (waypoints demo_task)
      = [([90, 45, 10], 500, SMOOTH, NORMAL), ([0, 45, 120], 0, CPG, PRECISE)]"
    by (simp add: demo_task_def waypoint_core_def)
  from C7_save_load_roundtrip
         [where arm = ?a and task_name = "''pick''" and task = demo_task
            and fs = "\<lambda>p. Missing" and filename = "''pick.json''"
            and ?arm2.0 = "default_backend (answering ''OK'')" and now = 9]
       h d n w
  show ?thesis by simp
qed

end
